theory Spec2Isabelle
  imports Complex_Main "HOL-Library.AList"
begin

section \<open>Python values carried by the drone protocol\<close>

text \<open>
  The controller of \<^verbatim>\<open>drone_controller.py\<close> works on the values that
  \<^verbatim>\<open>json.loads\<close> produces: \<^verbatim>\<open>None\<close>, booleans, integers, floats, strings, lists and
  dictionaries with string keys. A finite float is represented by its exact rational
  value (so \<^verbatim>\<open>-0.0\<close> is \<open>0\<close>); the constants \<^verbatim>\<open>NaN\<close> and \<^verbatim>\<open>Infinity\<close> are not
  represented. A dictionary is an association list in insertion order whose keys are
  pairwise distinct; \<open>map_of\<close> is the lookup.
\<close>

datatype json =
    JNull
  | JBool bool
  | JInt int
  | JFloat rat
  | JStr string
  | JArr "json list"
  | JObj "(string \<times> json) list"

text \<open>Truth value testing, as \<^verbatim>\<open>if drone_id:\<close> and \<^verbatim>\<open>params or {}\<close> perform it.\<close>

fun py_truthy :: "json \<Rightarrow> bool" where
  "py_truthy JNull = False"
| "py_truthy (JBool b) = b"
| "py_truthy (JInt i) = (i \<noteq> 0)"
| "py_truthy (JFloat r) = (r \<noteq> 0)"
| "py_truthy (JStr s) = (s \<noteq> [])"
| "py_truthy (JArr xs) = (xs \<noteq> [])"
| "py_truthy (JObj kvs) = (kvs \<noteq> [])"

text \<open>
  A dictionary key is a hashable value up to Python's equality: \<^verbatim>\<open>True == 1 == 1.0\<close>
  are one key, a string is only equal to the same string, and lists and dictionaries
  are unhashable (using one as a key raises \<^verbatim>\<open>TypeError\<close>).
\<close>

datatype pykey = KNone | KNum rat | KStr string

fun py_key :: "json \<Rightarrow> pykey option" where
  "py_key JNull = Some KNone"
| "py_key (JBool b) = Some (KNum (if b then 1 else 0))"
| "py_key (JInt i) = Some (KNum (of_int i))"
| "py_key (JFloat r) = Some (KNum r)"
| "py_key (JStr s) = Some (KStr s)"
| "py_key (JArr xs) = None"
| "py_key (JObj kvs) = None"

fun py_type_name :: "json \<Rightarrow> string" where
  "py_type_name JNull = ''NoneType''"
| "py_type_name (JBool b) = ''bool''"
| "py_type_name (JInt i) = ''int''"
| "py_type_name (JFloat r) = ''float''"
| "py_type_name (JStr s) = ''str''"
| "py_type_name (JArr xs) = ''list''"
| "py_type_name (JObj kvs) = ''dict''"

text \<open>
  An exception is its class and the text \<^verbatim>\<open>str(e)\<close>. \<open>SocketTimeout\<close> is
  \<^verbatim>\<open>socket.timeout\<close>; \<open>OtherException\<close> stands for every other subclass of
  \<^verbatim>\<open>Exception\<close> that a library call raises (\<^verbatim>\<open>OSError\<close>, \<^verbatim>\<open>ValueError\<close> of the
  JSON decoder, \<^verbatim>\<open>UnicodeDecodeError\<close>, \<^verbatim>\<open>RuntimeError\<close>).
\<close>

datatype exn_class = TypeError | AttributeError | SocketTimeout | OtherException

datatype exn = Exn exn_class string

fun str_exn :: "exn \<Rightarrow> string" where
  "str_exn (Exn c msg) = msg"

fun exn_class_of :: "exn \<Rightarrow> exn_class" where
  "exn_class_of (Exn c msg) = c"

definition quoted :: "string \<Rightarrow> string" where
  "quoted s = [CHR 0x27] @ s @ [CHR 0x27]"

definition unhashable :: "json \<Rightarrow> exn" where
  "unhashable v = Exn TypeError (''unhashable type: '' @ quoted (py_type_name v))"

definition no_attribute_get :: "json \<Rightarrow> exn" where
  "no_attribute_get v =
     Exn AttributeError (quoted (py_type_name v) @ '' object has no attribute '' @ quoted ''get'')"

text \<open>\<^verbatim>\<open>d.get(k, default)\<close> on a dictionary: the default only when the key is absent.\<close>

definition dict_get :: "(string \<times> json) list \<Rightarrow> string \<Rightarrow> json \<Rightarrow> json" where
  "dict_get d k dflt = (case map_of d k of None \<Rightarrow> dflt | Some v \<Rightarrow> v)"

section \<open>The controller's state\<close>

text \<open>
  One entry of \<^verbatim>\<open>discovered_drones\<close>, the dictionary literal of
  \<^verbatim>\<open>_handle_drone_announcement\<close>. \<open>address\<close> is \<^verbatim>\<open>addr[0]\<close>, a host string;
  \<open>last_seen\<close> is a \<^verbatim>\<open>datetime\<close>, here the number of microseconds since the epoch
  (the resolution of \<^verbatim>\<open>datetime\<close>). The key \<^verbatim>\<open>'id'\<close> is the field \<open>id'\<close>.
\<close>

record drone_info =
  id' :: json
  name :: json
  address :: string
  port :: json
  status :: json
  battery_voltage :: json
  gps_fix :: json
  flight_mode :: json
  armed :: json
  signal_strength :: json
  last_seen :: int
  firmware_version :: json

type_synonym registry = "(pykey \<times> drone_info) list"

datatype sock = Unbound | Bound | Closed

datatype thread = Created | Started

record drone_controller =
  discovery_port :: int
  discovered_drones :: registry
  server_socket :: "sock option"
  running :: bool
  discovery_thread :: "thread option"

text \<open>\<^verbatim>\<open>DroneController.__init__\<close>.\<close>

definition DroneController :: "int \<Rightarrow> drone_controller" where
  "DroneController p =
     \<lparr>discovery_port = p, discovered_drones = [], server_socket = None,
      running = False, discovery_thread = None\<rparr>"

text \<open>
  A registry is well formed when no two entries share a key, as in every Python
  dictionary.
\<close>

definition wf_registry :: "registry \<Rightarrow> bool" where
  "wf_registry d = distinct (map fst d)"

section \<open>Announce ingestion\<close>

text \<open>
  \<^verbatim>\<open>_handle_drone_announcement(message, addr)\<close>, with the value \<open>now\<close> of
  \<^verbatim>\<open>datetime.utcnow()\<close>. \<open>message\<close> is the decoded dictionary and \<open>addr\<close> the pair
  (host, port) that \<^verbatim>\<open>recvfrom\<close> returned. The subscript assignment hashes
  \<open>drone_id\<close> and raises \<^verbatim>\<open>TypeError\<close> for a non-empty list or dictionary.
\<close>

definition new_drone_info ::
    "int \<Rightarrow> (string \<times> json) list \<Rightarrow> string \<times> int \<Rightarrow> json \<Rightarrow> drone_info" where
  "new_drone_info now message addr drone_id =
     \<lparr>id' = drone_id,
      name = dict_get message ''name'' drone_id,
      address = fst addr,
      port = dict_get message ''port'' (JInt 14550),
      status = dict_get message ''pixhawk_status'' (JStr ''unknown''),
      battery_voltage = dict_get message ''battery_voltage'' (JInt 0),
      gps_fix = dict_get message ''gps_fix'' (JBool False),
      flight_mode = dict_get message ''flight_mode'' (JStr ''unknown''),
      armed = dict_get message ''armed'' (JBool False),
      signal_strength = dict_get message ''signal_strength'' (JInt 0),
      last_seen = now,
      firmware_version = dict_get message ''firmware_version'' (JStr ''unknown'')\<rparr>"

definition handle_drone_announcement ::
    "int \<Rightarrow> (string \<times> json) list \<Rightarrow> string \<times> int \<Rightarrow> drone_controller
      \<Rightarrow> exn + drone_controller" where
  "handle_drone_announcement now message addr self =
     (let drone_id = dict_get message ''drone_id'' JNull in
      if py_truthy drone_id then
        (case py_key drone_id of
           None \<Rightarrow> Inl (unhashable drone_id)
         | Some k \<Rightarrow>
             Inr (self\<lparr>discovered_drones :=
                   AList.update k (new_drone_info now message addr drone_id)
                     (discovered_drones self)\<rparr>))
      else Inr self)"

section \<open>Registry snapshot\<close>

text \<open>
  \<^verbatim>\<open>(current_time - info['last_seen']).total_seconds()\<close>: the difference in
  microseconds divided by \<open>10\<^sup>6\<close>. Python rounds the quotient to a float; rounding is
  monotone, 30 is a float and the floats next to 30 are closer to it than one
  microsecond, so the comparison with 30 has the same outcome on the exact quotient.
\<close>

definition total_seconds :: "int \<Rightarrow> rat" where
  "total_seconds us = of_int us / 1000000"

definition expired :: "int \<Rightarrow> drone_info \<Rightarrow> bool" where
  "expired current_time info \<longleftrightarrow> total_seconds (current_time - last_seen info) > 30"

text \<open>The first loop of \<^verbatim>\<open>get_discovered_drones\<close>: the keys of the stale entries.\<close>

fun expired_drones :: "int \<Rightarrow> registry \<Rightarrow> pykey list" where
  "expired_drones current_time [] = []"
| "expired_drones current_time ((drone_id, info) # items) =
     (if expired current_time info
      then drone_id # expired_drones current_time items
      else expired_drones current_time items)"



section \<open>Sending a command\<close>

text \<open>
  What the process does on the network, in order. An operation that raised is still
  listed: the list records attempts. \<open>SendTo msg (host, port)\<close> is
  \<^verbatim>\<open>sock.sendto(json.dumps(msg).encode(), (host, port))\<close> on the ephemeral socket,
  \<open>ServerSendTo response addr\<close> the same call on the bound server socket.
\<close>

datatype io_event =
    SocketCreate
  | SetTimeout rat
  | SendTo json "string \<times> json"
  | RecvFrom
  | SocketClose
  | ServerSendTo json "string \<times> int"

text \<open>
  The outcome of each library call inside the \<^verbatim>\<open>try\<close> block of
  \<^verbatim>\<open>send_command_to_drone\<close>: \<open>None\<close> when the call returns, the exception when it
  raises. \<open>socket_raises\<close> covers \<^verbatim>\<open>socket.socket\<close> and \<^verbatim>\<open>settimeout\<close>;
  \<open>sendto_raises\<close> covers \<^verbatim>\<open>json.dumps\<close>, \<^verbatim>\<open>encode\<close> and \<^verbatim>\<open>sendto\<close> (which also
  raises for a port that is not an integer in range); \<open>recvfrom_raises\<close> is
  \<^verbatim>\<open>socket.timeout\<close> after five seconds or another socket error; \<open>loads_result\<close> is what
  \<^verbatim>\<open>json.loads(response_data.decode())\<close> gives for the datagram received.
\<close>

record net_env =
  socket_raises :: "exn option"
  sendto_raises :: "exn option"
  recvfrom_raises :: "exn option"
  loads_result :: "exn + json"

definition command_msg :: "string \<Rightarrow> json \<Rightarrow> json \<Rightarrow> json \<Rightarrow> json" where
  "command_msg timestamp drone_id command params =
     JObj [(''type'', JStr ''command''),
           (''command'', command),
           (''target_drone'', drone_id),
           (''params'', if py_truthy params then params else JObj []),
           (''timestamp'', JStr timestamp)]"

definition failure :: "string \<Rightarrow> json" where
  "failure msg = JObj [(''success'', JBool False), (''error'', JStr msg)]"

text \<open>
  The \<^verbatim>\<open>try\<close> block. \<open>timestamp\<close> is the value of
  \<^verbatim>\<open>datetime.utcnow().isoformat()\<close>.
\<close>

definition send_try ::
    "net_env \<Rightarrow> string \<Rightarrow> drone_info \<Rightarrow> json \<Rightarrow> json \<Rightarrow> json
      \<Rightarrow> (exn + json) \<times> io_event list" where
  "send_try env timestamp info drone_id command params =
     (let msg = command_msg timestamp drone_id command params;
          drone_address = (address info, port info)
      in case socket_raises env of
           Some e \<Rightarrow> (Inl e, [SocketCreate])
         | None \<Rightarrow>
        (case sendto_raises env of
           Some e \<Rightarrow> (Inl e, [SocketCreate, SetTimeout 5, SendTo msg drone_address])
         | None \<Rightarrow>
        (case recvfrom_raises env of
           Some e \<Rightarrow>
             (Inl e, [SocketCreate, SetTimeout 5, SendTo msg drone_address, RecvFrom])
         | None \<Rightarrow>
        (case loads_result env of
           Inl e \<Rightarrow>
             (Inl e, [SocketCreate, SetTimeout 5, SendTo msg drone_address, RecvFrom])
         | Inr response \<Rightarrow>
             (case response of
                JObj d \<Rightarrow> Inr (dict_get d ''result'' (JObj [(''success'', JBool True)]))
              | _ \<Rightarrow> Inl (no_attribute_get response),
              [SocketCreate, SetTimeout 5, SendTo msg drone_address, RecvFrom,
               SocketClose])))))"

text \<open>
  \<^verbatim>\<open>send_command_to_drone(drone_id, command, params)\<close>. The membership test is outside
  the \<^verbatim>\<open>try\<close> block, so the \<^verbatim>\<open>TypeError\<close> of an unhashable \<open>drone_id\<close> reaches the
  caller; every exception of the \<^verbatim>\<open>try\<close> block becomes a failure result.
\<close>

definition send_command_to_drone ::
    "net_env \<Rightarrow> string \<Rightarrow> json \<Rightarrow> json \<Rightarrow> json \<Rightarrow> drone_controller
      \<Rightarrow> (exn + json) \<times> io_event list" where
  "send_command_to_drone env timestamp drone_id command params self =
     (case py_key drone_id of
        None \<Rightarrow> (Inl (unhashable drone_id), [])
      | Some k \<Rightarrow>
          (case map_of (discovered_drones self) k of
             None \<Rightarrow>
               (Inr (JObj [(''success'', JBool False), (''error'', JStr ''Drone not found'')]),
                [])
           | Some info \<Rightarrow>
               (case send_try env timestamp info drone_id command params of
                  (Inl e, tr) \<Rightarrow> (Inr (failure (str_exn e)), tr)
                | (Inr r, tr) \<Rightarrow> (Inr r, tr))))"

text \<open>The fixed-parameter wrappers; \<^verbatim>\<open>params\<close> defaults to \<^verbatim>\<open>None\<close>.\<close>

definition get_drone_telemetry ::
    "net_env \<Rightarrow> string \<Rightarrow> json \<Rightarrow> drone_controller \<Rightarrow> (exn + json) \<times> io_event list" where
  "get_drone_telemetry env ts drone_id self =
     send_command_to_drone env ts drone_id (JStr ''get_telemetry'') JNull self"

definition arm_drone ::
    "net_env \<Rightarrow> string \<Rightarrow> json \<Rightarrow> drone_controller \<Rightarrow> (exn + json) \<times> io_event list" where
  "arm_drone env ts drone_id self =
     send_command_to_drone env ts drone_id (JStr ''arm'') JNull self"

definition disarm_drone ::
    "net_env \<Rightarrow> string \<Rightarrow> json \<Rightarrow> drone_controller \<Rightarrow> (exn + json) \<times> io_event list" where
  "disarm_drone env ts drone_id self =
     send_command_to_drone env ts drone_id (JStr ''disarm'') JNull self"

definition takeoff_drone ::
    "net_env \<Rightarrow> string \<Rightarrow> json \<Rightarrow> json \<Rightarrow> drone_controller
      \<Rightarrow> (exn + json) \<times> io_event list" where
  "takeoff_drone env ts drone_id altitude self =
     send_command_to_drone env ts drone_id (JStr ''takeoff'')
       (JObj [(''altitude'', altitude)]) self"

definition land_drone ::
    "net_env \<Rightarrow> string \<Rightarrow> json \<Rightarrow> drone_controller \<Rightarrow> (exn + json) \<times> io_event list" where
  "land_drone env ts drone_id self =
     send_command_to_drone env ts drone_id (JStr ''land'') JNull self"

definition return_to_launch ::
    "net_env \<Rightarrow> string \<Rightarrow> json \<Rightarrow> drone_controller \<Rightarrow> (exn + json) \<times> io_event list" where
  "return_to_launch env ts drone_id self =
     send_command_to_drone env ts drone_id (JStr ''return_to_launch'') JNull self"

definition goto_location ::
    "net_env \<Rightarrow> string \<Rightarrow> json \<Rightarrow> json \<Rightarrow> json \<Rightarrow> json \<Rightarrow> drone_controller
      \<Rightarrow> (exn + json) \<times> io_event list" where
  "goto_location env ts drone_id latitude longitude altitude self =
     send_command_to_drone env ts drone_id (JStr ''goto_location'')
       (JObj [(''latitude'', latitude), (''longitude'', longitude),
              (''altitude'', altitude)]) self"

section \<open>The command dispatcher\<close>

text \<open>
  The handlers of \<^verbatim>\<open>_setup_command_handlers\<close>. Each logs and delegates to
  \<^verbatim>\<open>send_command_to_drone\<close>; the take-off and go-to handlers first call
  \<^verbatim>\<open>params.get\<close>, which raises \<^verbatim>\<open>AttributeError\<close> when \<open>params\<close> is not a
  dictionary.
\<close>

type_synonym handler =
  "net_env \<Rightarrow> string \<Rightarrow> json \<Rightarrow> json \<Rightarrow> drone_controller \<Rightarrow> (exn + json) \<times> io_event list"

definition handle_arm_command :: handler where
  "handle_arm_command env ts drone_id params self =
     send_command_to_drone env ts drone_id (JStr ''arm'') params self"

definition handle_disarm_command :: handler where
  "handle_disarm_command env ts drone_id params self =
     send_command_to_drone env ts drone_id (JStr ''disarm'') params self"

definition handle_takeoff_command :: handler where
  "handle_takeoff_command env ts drone_id params self =
     (case params of
        JObj d \<Rightarrow> send_command_to_drone env ts drone_id (JStr ''takeoff'') params self
      | _ \<Rightarrow> (Inl (no_attribute_get params), []))"

definition handle_land_command :: handler where
  "handle_land_command env ts drone_id params self =
     send_command_to_drone env ts drone_id (JStr ''land'') params self"

definition handle_rtl_command :: handler where
  "handle_rtl_command env ts drone_id params self =
     send_command_to_drone env ts drone_id (JStr ''return_to_launch'') params self"

definition handle_goto_command :: handler where
  "handle_goto_command env ts drone_id params self =
     (case params of
        JObj d \<Rightarrow> send_command_to_drone env ts drone_id (JStr ''goto_location'') params self
      | _ \<Rightarrow> (Inl (no_attribute_get params), []))"

definition handle_telemetry_request :: handler where
  "handle_telemetry_request env ts drone_id params self =
     send_command_to_drone env ts drone_id (JStr ''get_telemetry'') params self"

definition command_handlers :: "(string \<times> handler) list" where
  "command_handlers =
     [(''arm'', handle_arm_command),
      (''disarm'', handle_disarm_command),
      (''takeoff'', handle_takeoff_command),
      (''land'', handle_land_command),
      (''return_to_launch'', handle_rtl_command),
      (''goto_location'', handle_goto_command),
      (''get_telemetry'', handle_telemetry_request)]"

text \<open>
  \<^verbatim>\<open>command in self.command_handlers\<close> and \<^verbatim>\<open>self.command_handlers[command]\<close>: the
  table's keys are strings, so only a string finds a handler.
\<close>

fun lookup_handler :: "pykey \<Rightarrow> handler option" where
  "lookup_handler (KStr s) = map_of command_handlers s"
| "lookup_handler k = None"

definition command_response :: "string \<Rightarrow> json \<Rightarrow> json \<Rightarrow> json \<Rightarrow> json" where
  "command_response timestamp drone_id command result =
     JObj [(''type'', JStr ''command_response''),
           (''drone_id'', drone_id),
           (''command'', command),
           (''result'', result),
           (''timestamp'', JStr timestamp)]"

text \<open>
  \<^verbatim>\<open>_handle_drone_command(message, addr)\<close>: the exception that leaves the method, if
  any, and the network operations. \<open>ts_cmd\<close> and \<open>ts_resp\<close> are the two timestamps
  read. The \<^verbatim>\<open>sendto\<close> of the response sits in its own \<^verbatim>\<open>try\<close>, so its failure is
  only logged. There is no \<^verbatim>\<open>else\<close> branch.
\<close>

definition handle_drone_command ::
    "net_env \<Rightarrow> string \<Rightarrow> string \<Rightarrow> (string \<times> json) list \<Rightarrow> string \<times> int
      \<Rightarrow> drone_controller \<Rightarrow> exn option \<times> io_event list" where
  "handle_drone_command env ts_cmd ts_resp message addr self =
     (let command = dict_get message ''command'' JNull;
          drone_id = dict_get message ''target_drone'' JNull
      in case py_key command of
           None \<Rightarrow> (Some (unhashable command), [])
         | Some k \<Rightarrow>
             (case lookup_handler k of
                None \<Rightarrow> (None, [])
              | Some h \<Rightarrow>
                  (case h env ts_cmd drone_id (dict_get message ''params'' (JObj [])) self of
                     (Inl e, tr) \<Rightarrow> (Some e, tr)
                   | (Inr result, tr) \<Rightarrow>
                       (None,
                        tr @ [ServerSendTo
                                (command_response ts_resp drone_id command result) addr]))))"

section \<open>The discovery listener\<close>

text \<open>
  What \<^verbatim>\<open>recvfrom\<close> on the server socket gives in one iteration: an exception, or a
  datagram, given by the result of \<^verbatim>\<open>json.loads(data.decode())\<close> on its bytes, and the
  sender's address from the socket.
\<close>

datatype recv = RecvRaises exn | Datagram "exn + json" "string \<times> int"

text \<open>The \<^verbatim>\<open>try\<close> block of the loop body of \<^verbatim>\<open>_discovery_listener\<close>.\<close>

definition listener_try ::
    "recv \<Rightarrow> int \<Rightarrow> net_env \<Rightarrow> string \<Rightarrow> string \<Rightarrow> drone_controller
      \<Rightarrow> drone_controller \<times> io_event list \<times> exn option" where
  "listener_try r now env ts_cmd ts_resp self =
     (case r of
        RecvRaises e \<Rightarrow> (self, [], Some e)
      | Datagram (Inl e) addr \<Rightarrow> (self, [], Some e)
      | Datagram (Inr (JObj message)) addr \<Rightarrow>
          (if dict_get message ''type'' JNull = JStr ''drone_announce'' then
             (case handle_drone_announcement now message addr self of
                Inl e \<Rightarrow> (self, [], Some e)
              | Inr self' \<Rightarrow> (self', [], None))
           else if dict_get message ''type'' JNull = JStr ''command'' then
             (case handle_drone_command env ts_cmd ts_resp message addr self of
                (raised, tr) \<Rightarrow> (self, tr, raised))
           else (self, [], None))
      | Datagram (Inr v) addr \<Rightarrow> (self, [], Some (no_attribute_get v)))"

text \<open>
  One iteration: \<^verbatim>\<open>socket.timeout\<close> continues silently, every other exception is
  logged (the third component) before the loop sleeps a second and goes on.
\<close>

definition listener_iteration ::
    "recv \<Rightarrow> int \<Rightarrow> net_env \<Rightarrow> string \<Rightarrow> string \<Rightarrow> drone_controller
      \<Rightarrow> drone_controller \<times> io_event list \<times> exn option" where
  "listener_iteration r now env ts_cmd ts_resp self =
     (case listener_try r now env ts_cmd ts_resp self of
        (self', tr, None) \<Rightarrow> (self', tr, None)
      | (self', tr, Some e) \<Rightarrow>
          (if exn_class_of e = SocketTimeout then (self', tr, None)
           else (self', tr, Some e)))"




section \<open>Starting and stopping\<close>

text \<open>
  The outcome of each call in the \<^verbatim>\<open>try\<close> block of \<^verbatim>\<open>start_server\<close> that can raise:
  creating the socket, setting \<^verbatim>\<open>SO_REUSEADDR\<close>, binding the port, and starting the
  listener thread.
\<close>

record os_env =
  socket_fails :: "exn option"
  setsockopt_fails :: "exn option"
  bind_fails :: "exn option"
  thread_start_fails :: "exn option"

definition start_try :: "os_env \<Rightarrow> drone_controller \<Rightarrow> drone_controller \<times> (exn + bool)" where
  "start_try os self =
     (case socket_fails os of
        Some e \<Rightarrow> (self, Inl e)
      | None \<Rightarrow>
     (let s1 = self\<lparr>server_socket := Some Unbound\<rparr> in
      case setsockopt_fails os of
        Some e \<Rightarrow> (s1, Inl e)
      | None \<Rightarrow>
     (case bind_fails os of
        Some e \<Rightarrow> (s1, Inl e)
      | None \<Rightarrow>
     (let s2 = s1\<lparr>server_socket := Some Bound, running := True,
                  discovery_thread := Some Created\<rparr> in
      case thread_start_fails os of
        Some e \<Rightarrow> (s2, Inl e)
      | None \<Rightarrow> (s2\<lparr>discovery_thread := Some Started\<rparr>, Inr True)))))"

text \<open>\<^verbatim>\<open>start_server()\<close>: \<^verbatim>\<open>except Exception\<close> logs and returns \<^verbatim>\<open>False\<close>.\<close>

definition start_server :: "os_env \<Rightarrow> drone_controller \<Rightarrow> drone_controller \<times> (exn + bool)" where
  "start_server os self =
     (case start_try os self of
        (self', Inl e) \<Rightarrow> (self', Inr False)
      | (self', Inr b) \<Rightarrow> (self', Inr b))"

definition stop_server :: "drone_controller \<Rightarrow> drone_controller" where
  "stop_server self =
     (let s1 = self\<lparr>running := False\<rparr> in
      case server_socket s1 of
        None \<Rightarrow> s1
      | Some s \<Rightarrow> s1\<lparr>server_socket := Some Closed\<rparr>)"

section \<open>Example data\<close>

text \<open>
  A controller on port 8888, a drone \<^verbatim>\<open>drone-1\<close> announcing a battery voltage of 12.4
  from 10.0.0.5 (the float 12.4 is the double \<open>6980579422424269 / 2\<^sup>4\<^sup>9\<close>), a second drone
  \<^verbatim>\<open>drone-2\<close> announcing from 10.0.0.6, and a peer that never answers.
\<close>

definition example_addr :: "string \<times> int" where
  "example_addr = (''10.0.0.5'', 40000)"

definition example_announce :: "(string \<times> json) list" where
  "example_announce =
     [(''type'', JStr ''drone_announce''),
      (''drone_id'', JStr ''drone-1''),
      (''battery_voltage'', JFloat (6980579422424269 / 562949953421312))]"

definition example_controller :: drone_controller where
  "example_controller =
     \<lparr>discovery_port = 8888,
      discovered_drones =
        [(KStr ''drone-1'', new_drone_info 0 example_announce example_addr (JStr ''drone-1''))],
      server_socket = Some Bound, running = True, discovery_thread = Some Started\<rparr>"

definition example_timeout :: net_env where
  "example_timeout =
     \<lparr>socket_raises = None, sendto_raises = None,
      recvfrom_raises = Some (Exn SocketTimeout ''timed out''),
      loads_result = Inr JNull\<rparr>"





section \<open>Properties of the registry\<close>

text \<open>The staleness test in microseconds.\<close>

lemma expired_iff: "expired t info \<longleftrightarrow> t - last_seen info > 30000000"
proof -
  have "(30::rat) < of_int x / 1000000 \<longleftrightarrow> 30000000 < x" for x :: int
  proof -
    have "(30::rat) < of_int x / 1000000 \<longleftrightarrow> (30000000::rat) < of_int x"
      by (simp add: pos_less_divide_eq)
    also have "\<dots> \<longleftrightarrow> (of_int 30000000 :: rat) < of_int x" by simp
    also have "\<dots> \<longleftrightarrow> 30000000 < x" by (simp only: of_int_less_iff)
    finally show ?thesis .
  qed
  then show ?thesis by (simp only: expired_def total_seconds_def)
qed

lemma set_expired_drones:
  "set (expired_drones t d) = {k. \<exists>info. (k, info) \<in> set d \<and> expired t info}"
proof (induction d)
  case Nil
  then show ?case by simp
next
  case (Cons p d)
  obtain k info where p: "p = (k, info)" by (cases p)
  show ?case unfolding p using Cons by (cases "expired t info") auto
qed

lemma expired_drones_present: "set (expired_drones t d) \<subseteq> fst ` set d"
  unfolding set_expired_drones by force



lemma wf_update: "wf_registry d \<Longrightarrow> wf_registry (AList.update k v d)"
  by (simp add: wf_registry_def distinct_update)


lemma announce_stores:
  assumes "py_truthy (dict_get message ''drone_id'' JNull)"
    and "py_key (dict_get message ''drone_id'' JNull) = Some k"
  shows "handle_drone_announcement ta message addr self =
     Inr (self\<lparr>discovered_drones :=
            AList.update k (new_drone_info ta message addr (dict_get message ''drone_id'' JNull))
              (discovered_drones self)\<rparr>)"
  using assms by (simp add: handle_drone_announcement_def)

lemma example_announce_id:
  "dict_get example_announce ''drone_id'' JNull = JStr ''drone-1''"
  by (simp add: example_announce_def dict_get_def)

lemma wf_initial: "wf_registry (discovered_drones (DroneController p))"
  by (simp add: wf_registry_def DroneController_def)

lemma wf_example: "wf_registry (discovered_drones example_controller)"
  by (simp add: wf_registry_def example_controller_def)











section \<open>Snapshot and liveness window\<close>




section \<open>Announces without an identifier\<close>

text \<open>
  Claim C10. An announce message whose \<^verbatim>\<open>drone_id\<close> is absent, \<^verbatim>\<open>null\<close> or the empty
  string leaves the controller, and so the registry, exactly as it was: the handler
  returns the state unchanged, and the listener iteration that processes such a datagram
  changes nothing, sends nothing and logs nothing.
\<close>
theorem announce_without_id_ignored:
  assumes "map_of message ''drone_id'' = None \<or>
           map_of message ''drone_id'' = Some JNull \<or>
           map_of message ''drone_id'' = Some (JStr [])"
  shows "handle_drone_announcement now message addr self = Inr self \<and>
         (dict_get message ''type'' JNull = JStr ''drone_announce'' \<longrightarrow>
            listener_iteration (Datagram (Inr (JObj message)) addr) now env ts_cmd ts_resp self =
              (self, [], None))"
proof -
  have "\<not> py_truthy (dict_get message ''drone_id'' JNull)"
    using assms by (auto simp: dict_get_def)
  then have h: "handle_drone_announcement now message addr self = Inr self"
    by (simp add: handle_drone_announcement_def)
  then show ?thesis
    by (simp add: listener_iteration_def listener_try_def)
qed

theorem announce_without_id_ignored_witness:
  "(map_of [(''type'', JStr ''drone_announce''), (''drone_id'', JStr [])] ''drone_id'' = None \<or>
    map_of [(''type'', JStr ''drone_announce''), (''drone_id'', JStr [])] ''drone_id'' = Some JNull \<or>
    map_of [(''type'', JStr ''drone_announce''), (''drone_id'', JStr [])] ''drone_id'' = Some (JStr [])) \<and>
   handle_drone_announcement 5000000
     [(''type'', JStr ''drone_announce''), (''drone_id'', JStr [])] example_addr example_controller =
     Inr example_controller \<and>
   listener_iteration
     (Datagram (Inr (JObj [(''type'', JStr ''drone_announce''), (''drone_id'', JStr [])])) example_addr)
     5000000 example_timeout [] [] example_controller = (example_controller, [], None)"
proof -
  let ?m = "[(''type'', JStr ''drone_announce''), (''drone_id'', JStr [])]"
  have a: "map_of ?m ''drone_id'' = None \<or> map_of ?m ''drone_id'' = Some JNull \<or>
           map_of ?m ''drone_id'' = Some (JStr [])"
    by simp
  have t: "dict_get ?m ''type'' JNull = JStr ''drone_announce''"
    by (simp add: dict_get_def)
  from announce_without_id_ignored [OF a, of 5000000 example_addr example_controller
      example_timeout "[]" "[]"] t a
  show ?thesis by blast
qed

section \<open>Commands to a known drone never raise\<close>

text \<open>
  Claim C7. For a \<open>drone_id\<close> that is a key of the registry, and for every command,
  parameter value and outcome of the network calls, \<^verbatim>\<open>send_command_to_drone\<close> returns a
  value and raises nothing. When creating the socket, sending, or receiving raises (a
  timeout included), when the reply cannot be decoded, or when the decoded reply is not a
  dictionary, the value returned is the failure result with \<^verbatim>\<open>success\<close> false and
  \<^verbatim>\<open>error\<close> the text of the exception.
\<close>
theorem send_command_never_raises:
  assumes "py_key drone_id = Some k"
    and "map_of (discovered_drones self) k = Some info"
  shows "(\<exists>r. fst (send_command_to_drone env ts drone_id command params self) = Inr r) \<and>
    (\<forall>e. socket_raises env = Some e \<longrightarrow>
        fst (send_command_to_drone env ts drone_id command params self) =
          Inr (JObj [(''success'', JBool False), (''error'', JStr (str_exn e))])) \<and>
    (\<forall>e. socket_raises env = None \<and> sendto_raises env = Some e \<longrightarrow>
        fst (send_command_to_drone env ts drone_id command params self) =
          Inr (JObj [(''success'', JBool False), (''error'', JStr (str_exn e))])) \<and>
    (\<forall>e. socket_raises env = None \<and> sendto_raises env = None \<and> recvfrom_raises env = Some e \<longrightarrow>
        fst (send_command_to_drone env ts drone_id command params self) =
          Inr (JObj [(''success'', JBool False), (''error'', JStr (str_exn e))])) \<and>
    (\<forall>e. socket_raises env = None \<and> sendto_raises env = None \<and> recvfrom_raises env = None \<and>
         loads_result env = Inl e \<longrightarrow>
        fst (send_command_to_drone env ts drone_id command params self) =
          Inr (JObj [(''success'', JBool False), (''error'', JStr (str_exn e))])) \<and>
    (\<forall>v. socket_raises env = None \<and> sendto_raises env = None \<and> recvfrom_raises env = None \<and>
         loads_result env = Inr v \<and> (\<forall>d. v \<noteq> JObj d) \<longrightarrow>
        fst (send_command_to_drone env ts drone_id command params self) =
          Inr (JObj [(''success'', JBool False),
                     (''error'', JStr (str_exn (no_attribute_get v)))]))"
proof -
  have eq: "send_command_to_drone env ts drone_id command params self =
      (case send_try env ts info drone_id command params of
         (Inl e, tr) \<Rightarrow> (Inr (failure (str_exn e)), tr)
       | (Inr r, tr) \<Rightarrow> (Inr r, tr))"
    using assms by (simp add: send_command_to_drone_def)
  show ?thesis
    unfolding eq
    by (cases "loads_result env")
       (auto simp: send_try_def failure_def Let_def split: option.splits sum.splits json.splits)
qed

theorem send_command_never_raises_witness:
  "py_key (JStr ''drone-1'') = Some (KStr ''drone-1'') \<and>
   map_of (discovered_drones example_controller) (KStr ''drone-1'') =
     Some (new_drone_info 0 example_announce example_addr (JStr ''drone-1'')) \<and>
   fst (send_command_to_drone example_timeout ''2024-01-01T00:00:00'' (JStr ''drone-1'')
          (JStr ''takeoff'') (JObj [(''altitude'', JFloat 15)]) example_controller) =
     Inr (JObj [(''success'', JBool False), (''error'', JStr ''timed out'')])"
proof -
  have k: "py_key (JStr ''drone-1'') = Some (KStr ''drone-1'')" by simp
  have m: "map_of (discovered_drones example_controller) (KStr ''drone-1'') =
     Some (new_drone_info 0 example_announce example_addr (JStr ''drone-1''))"
    by (simp add: example_controller_def)
  have e: "socket_raises example_timeout = None \<and> sendto_raises example_timeout = None \<and>
           recvfrom_raises example_timeout = Some (Exn SocketTimeout ''timed out'')"
    by (simp add: example_timeout_def)
  from send_command_never_raises [OF k m, of example_timeout] e
  have "fst (send_command_to_drone example_timeout ''2024-01-01T00:00:00'' (JStr ''drone-1'')
          (JStr ''takeoff'') (JObj [(''altitude'', JFloat 15)]) example_controller) =
     Inr (JObj [(''success'', JBool False),
                (''error'', JStr (str_exn (Exn SocketTimeout ''timed out'')))])"
    by blast
  with k m show ?thesis by simp
qed

section \<open>Commands to an unknown drone\<close>

text \<open>
  Claim C3 fails as stated: the error text the code returns is \<^verbatim>\<open>Drone not found\<close>, with
  a capital D, not \<^verbatim>\<open>drone not found\<close>.
\<close>

theorem drone_not_found_text_counterexample:
  "send_command_to_drone example_timeout ''2024-01-01T00:00:00'' (JStr ''missing-id'')
     (JStr ''arm'') (JObj []) (DroneController 8888) =
     (Inr (JObj [(''success'', JBool False), (''error'', JStr ''Drone not found'')]), []) \<and>
   fst (send_command_to_drone example_timeout ''2024-01-01T00:00:00'' (JStr ''missing-id'')
     (JStr ''arm'') (JObj []) (DroneController 8888)) \<noteq>
     Inr (JObj [(''success'', JBool False), (''error'', JStr ''drone not found'')]) \<and>
   fst (send_command_to_drone example_timeout ''2024-01-01T00:00:00'' (JStr ''missing-id'')
     (JStr ''arm'') (JObj []) (DroneController 8888)) \<noteq>
     Inr (JObj [(''error'', JStr ''drone not found''), (''success'', JBool False)])"
  by (simp add: send_command_to_drone_def DroneController_def)

text \<open>
  Claim C3, amended. For every hashable identifier (every string in particular) that is
  not a key of the registry, and every command and parameter value,
  \<^verbatim>\<open>send_command_to_drone\<close> returns the result with \<^verbatim>\<open>success\<close> false and \<^verbatim>\<open>error\<close>
  \<^verbatim>\<open>Drone not found\<close>, and performs no network operation: no socket is created and
  nothing is sent, whatever the network would have done.
\<close>

theorem send_command_unknown_drone:
  assumes "py_key drone_id = Some k"
    and "map_of (discovered_drones self) k = None"
  shows "send_command_to_drone env ts drone_id command params self =
     (Inr (JObj [(''success'', JBool False), (''error'', JStr ''Drone not found'')]), [])"
  using assms by (simp add: send_command_to_drone_def)

theorem send_command_unknown_drone_witness:
  "py_key (JStr ''missing-id'') = Some (KStr ''missing-id'') \<and>
   map_of (discovered_drones example_controller) (KStr ''missing-id'') = None \<and>
   send_command_to_drone example_timeout ''2024-01-01T00:00:00'' (JStr ''missing-id'')
     (JStr ''arm'') (JObj []) example_controller =
     (Inr (JObj [(''success'', JBool False), (''error'', JStr ''Drone not found'')]), [])"
proof -
  have k: "py_key (JStr ''missing-id'') = Some (KStr ''missing-id'')" by simp
  have m: "map_of (discovered_drones example_controller) (KStr ''missing-id'') = None"
    by (simp add: example_controller_def)
  from send_command_unknown_drone [OF k m] k m show ?thesis by blast
qed

section \<open>Two announces for one drone\<close>

lemma filter_update:
  "wf_registry d \<Longrightarrow> filter (\<lambda>p. fst p = k) (AList.update k v d) = [(k, v)]"
proof (induction d)
  case Nil
  then show ?case by simp
next
  case (Cons p d)
  show ?case
  proof (cases "fst p = k")
    case True
    with Cons.prems have "k \<notin> fst ` set d" by (auto simp: wf_registry_def)
    then have "filter (\<lambda>p. fst p = k) d = []" by (auto simp: filter_empty_conv)
    with True show ?thesis by simp
  next
    case False
    with Cons show ?thesis by (simp add: wf_registry_def)
  qed
qed

text \<open>
  Claim C4 fails as stated for an empty identifier: two announces whose \<^verbatim>\<open>drone_id\<close>
  is the empty string leave the registry without any record for it.
\<close>

theorem empty_id_announces_counterexample:
  "\<exists>s1 s2.
     handle_drone_announcement 0 [(''type'', JStr ''drone_announce''), (''drone_id'', JStr [])]
       (''10.0.0.5'', 40000) (DroneController 8888) = Inr s1 \<and>
     handle_drone_announcement 1000000
       [(''type'', JStr ''drone_announce''), (''drone_id'', JStr [])]
       (''10.0.0.6'', 40000) s1 = Inr s2 \<and>
     py_key (JStr []) = Some (KStr []) \<and>
     map_of (discovered_drones s2) (KStr []) = None \<and>
     filter (\<lambda>p. fst p = KStr []) (discovered_drones s2) = []"
  by (simp add: handle_drone_announcement_def dict_get_def DroneController_def)

text \<open>
  Claim C4, amended. For every non-empty (truthy, hashable) \<open>drone_id\<close> and every two
  announce messages carrying it, processed in sequence on a well-formed registry from
  the addresses \<open>addra\<close> and then \<open>addrb\<close>, both are ingested, the registry afterwards
  holds exactly one entry under that identifier, that entry is the record built from the
  second announce, its address is the host of \<open>addrb\<close>, and no two entries of the
  registry share a key.
\<close>

theorem two_announces_last_wins:
  assumes "wf_registry (discovered_drones self)"
    and "dict_get m1 ''drone_id'' JNull = drone_id"
    and "dict_get m2 ''drone_id'' JNull = drone_id"
    and "py_truthy drone_id"
    and "py_key drone_id = Some k"
  shows "\<exists>s1 s2.
     handle_drone_announcement ta m1 addra self = Inr s1 \<and>
     handle_drone_announcement tb m2 addrb s1 = Inr s2 \<and>
     filter (\<lambda>p. fst p = k) (discovered_drones s2) =
       [(k, new_drone_info tb m2 addrb drone_id)] \<and>
     map_of (discovered_drones s2) k = Some (new_drone_info tb m2 addrb drone_id) \<and>
     address (new_drone_info tb m2 addrb drone_id) = fst addrb \<and>
     wf_registry (discovered_drones s2)"
proof -
  let ?ia = "new_drone_info ta m1 addra drone_id"
  let ?ib = "new_drone_info tb m2 addrb drone_id"
  let ?d1 = "AList.update k ?ia (discovered_drones self)"
  let ?s1 = "self\<lparr>discovered_drones := ?d1\<rparr>"
  let ?d2 = "AList.update k ?ib ?d1"
  let ?s2 = "?s1\<lparr>discovered_drones := ?d2\<rparr>"
  have a1: "handle_drone_announcement ta m1 addra self = Inr ?s1"
    using assms(2,4,5) announce_stores [of m1 k ta addra self] by simp
  have a2: "handle_drone_announcement tb m2 addrb ?s1 = Inr ?s2"
    using assms(3,4,5) announce_stores [of m2 k tb addrb ?s1] by simp
  have wf1: "wf_registry ?d1" using assms(1) by (rule wf_update)
  have wf2: "wf_registry ?d2" using wf1 by (rule wf_update)
  have f: "filter (\<lambda>p. fst p = k) ?d2 = [(k, ?ib)]" using wf1 by (rule filter_update)
  have m: "map_of ?d2 k = Some ?ib" by (simp add: update_conv')
  have ad: "address ?ib = fst addrb" by (simp add: new_drone_info_def)
  from a1 a2 f m ad wf2 show ?thesis
    by (intro exI [of _ ?s1] exI [of _ ?s2]) simp
qed

theorem two_announces_last_wins_witness:
  "wf_registry (discovered_drones (DroneController 8888)) \<and>
   dict_get example_announce ''drone_id'' JNull = JStr ''drone-1'' \<and>
   py_truthy (JStr ''drone-1'') \<and> py_key (JStr ''drone-1'') = Some (KStr ''drone-1'') \<and>
   (\<exists>s1 s2.
     handle_drone_announcement 0 example_announce (''10.0.0.5'', 40000) (DroneController 8888)
       = Inr s1 \<and>
     handle_drone_announcement 1000000 example_announce (''10.0.0.6'', 40001) s1 = Inr s2 \<and>
     filter (\<lambda>p. fst p = KStr ''drone-1'') (discovered_drones s2) =
       [(KStr ''drone-1'',
         new_drone_info 1000000 example_announce (''10.0.0.6'', 40001) (JStr ''drone-1''))] \<and>
     address (new_drone_info 1000000 example_announce (''10.0.0.6'', 40001) (JStr ''drone-1''))
       = ''10.0.0.6'')"
proof -
  have t: "py_truthy (JStr ''drone-1'')" by simp
  have k: "py_key (JStr ''drone-1'') = Some (KStr ''drone-1'')" by simp
  from two_announces_last_wins [OF wf_initial [of 8888] example_announce_id example_announce_id t k,
      where ta = 0 and addra = "(''10.0.0.5'', 40000)" and tb = 1000000
        and addrb = "(''10.0.0.6'', 40001)"]
  have "\<exists>s1 s2.
     handle_drone_announcement 0 example_announce (''10.0.0.5'', 40000) (DroneController 8888)
       = Inr s1 \<and>
     handle_drone_announcement 1000000 example_announce (''10.0.0.6'', 40001) s1 = Inr s2 \<and>
     filter (\<lambda>p. fst p = KStr ''drone-1'') (discovered_drones s2) =
       [(KStr ''drone-1'',
         new_drone_info 1000000 example_announce (''10.0.0.6'', 40001) (JStr ''drone-1''))] \<and>
     address (new_drone_info 1000000 example_announce (''10.0.0.6'', 40001) (JStr ''drone-1''))
       = ''10.0.0.6''"
    by auto
  with wf_initial example_announce_id t k show ?thesis by blast
qed

section \<open>Commands the dispatcher does not know\<close>

lemma lookup_handler_None:
  assumes "k \<notin> {KStr ''arm'', KStr ''disarm'', KStr ''takeoff'', KStr ''land'',
                 KStr ''return_to_launch'', KStr ''goto_location'', KStr ''get_telemetry''}"
  shows "lookup_handler k = None"
proof (cases k)
  case (KStr s)
  with assms show ?thesis by (simp add: command_handlers_def)
qed simp_all

text \<open>
  Claim C5 fails as stated: for a command name outside the table the method has no
  branch, so nothing is produced and no \<^verbatim>\<open>command_response\<close> is sent.
\<close>

theorem unknown_command_counterexample:
  "handle_drone_command example_timeout ''2024-01-01T00:00:00'' ''2024-01-01T00:00:01''
     [(''type'', JStr ''command''), (''command'', JStr ''fly''),
      (''target_drone'', JStr ''drone-1'')]
     example_addr example_controller = (None, []) \<and>
   ServerSendTo
     (command_response ''2024-01-01T00:00:01'' (JStr ''drone-1'') (JStr ''fly'')
        (JObj [(''success'', JBool False), (''error'', JStr ''unknown command'')]))
     example_addr
   \<notin> set (snd (handle_drone_command example_timeout ''2024-01-01T00:00:00''
                  ''2024-01-01T00:00:01''
                  [(''type'', JStr ''command''), (''command'', JStr ''fly''),
                   (''target_drone'', JStr ''drone-1'')]
                  example_addr example_controller))"
  by (simp add: handle_drone_command_def dict_get_def command_handlers_def)

text \<open>
  Claim C5, amended. For every inbound command message whose command name is a hashable
  value other than the seven supported names (a missing name included), the dispatcher
  produces no result and sends no response: \<^verbatim>\<open>_handle_drone_command\<close> returns without
  raising and without any network operation, and the listener iteration that processes
  the datagram leaves the controller unchanged and logs nothing.
\<close>

theorem unknown_command_dropped:
  assumes "py_key (dict_get message ''command'' JNull) = Some k"
    and "k \<notin> {KStr ''arm'', KStr ''disarm'', KStr ''takeoff'', KStr ''land'',
                KStr ''return_to_launch'', KStr ''goto_location'', KStr ''get_telemetry''}"
  shows "handle_drone_command env ts_cmd ts_resp message addr self = (None, []) \<and>
         (dict_get message ''type'' JNull = JStr ''command'' \<longrightarrow>
            listener_iteration (Datagram (Inr (JObj message)) addr) now env ts_cmd ts_resp self =
              (self, [], None))"
proof -
  have h: "handle_drone_command env ts_cmd ts_resp message addr self = (None, [])"
    using assms(1) lookup_handler_None [OF assms(2)]
    by (simp add: handle_drone_command_def)
  then show ?thesis
    by (simp add: listener_iteration_def listener_try_def)
qed

theorem unknown_command_dropped_witness:
  "py_key (dict_get [(''type'', JStr ''command''), (''command'', JStr ''fly''),
                     (''target_drone'', JStr ''drone-1'')] ''command'' JNull) =
     Some (KStr ''fly'') \<and>
   KStr ''fly'' \<notin> {KStr ''arm'', KStr ''disarm'', KStr ''takeoff'', KStr ''land'',
                KStr ''return_to_launch'', KStr ''goto_location'', KStr ''get_telemetry''} \<and>
   listener_iteration
     (Datagram (Inr (JObj [(''type'', JStr ''command''), (''command'', JStr ''fly''),
                           (''target_drone'', JStr ''drone-1'')])) example_addr)
     5000000 example_timeout [] [] example_controller = (example_controller, [], None)"
proof -
  let ?m = "[(''type'', JStr ''command''), (''command'', JStr ''fly''),
             (''target_drone'', JStr ''drone-1'')]"
  have k: "py_key (dict_get ?m ''command'' JNull) = Some (KStr ''fly'')"
    by (simp add: dict_get_def)
  have n: "KStr ''fly'' \<notin> {KStr ''arm'', KStr ''disarm'', KStr ''takeoff'', KStr ''land'',
                KStr ''return_to_launch'', KStr ''goto_location'', KStr ''get_telemetry''}"
    by simp
  have t: "dict_get ?m ''type'' JNull = JStr ''command''" by (simp add: dict_get_def)
  from unknown_command_dropped [OF k n, of example_timeout "[]" "[]" example_addr
      example_controller 5000000] t k n
  show ?thesis by blast
qed

section \<open>Where a record's address comes from\<close>

text \<open>
  Claim C6 fails as stated for the port: the address a command is sent to is the pair
  of the record's \<open>address\<close> and \<open>port\<close>, and the port is read from the payload. An
  announce arriving from 10.0.0.5 port 40000 whose payload says port 9999 stores
  (10.0.0.5, 9999), and a command for that drone is sent there.
\<close>

theorem payload_port_counterexample:
  "\<exists>s1 info.
     handle_drone_announcement 0
       [(''type'', JStr ''drone_announce''), (''drone_id'', JStr ''drone-1''),
        (''port'', JInt 9999)]
       (''10.0.0.5'', 40000) (DroneController 8888) = Inr s1 \<and>
     map_of (discovered_drones s1) (KStr ''drone-1'') = Some info \<and>
     (address info, port info) = (''10.0.0.5'', JInt 9999) \<and>
     (address info, port info) \<noteq> (''10.0.0.5'', JInt 40000) \<and>
     snd (send_command_to_drone example_timeout [] (JStr ''drone-1'') (JStr ''arm'') JNull s1) =
       [SocketCreate, SetTimeout 5,
        SendTo (command_msg [] (JStr ''drone-1'') (JStr ''arm'') JNull) (''10.0.0.5'', JInt 9999),
        RecvFrom]"
  by (simp add: handle_drone_announcement_def dict_get_def DroneController_def Let_def
      new_drone_info_def send_command_to_drone_def send_try_def example_timeout_def)

text \<open>
  Claim C6, amended. For every announce message that is ingested (its \<^verbatim>\<open>drone_id\<close> is
  truthy and hashable), the host stored in the record's \<open>address\<close> is the host of the
  datagram's socket source address and never comes from the payload: two payloads with
  the same identifier arriving from the same source store the same \<open>address\<close>. The
  record's \<open>port\<close>, however, is the payload's \<^verbatim>\<open>port\<close> field, 14550 when the payload
  has none, not the source port of the socket. The listener passes the address that
  \<^verbatim>\<open>recvfrom\<close> returned.
\<close>

theorem announce_address_from_socket:
  assumes "py_truthy (dict_get message ''drone_id'' JNull)"
    and "py_key (dict_get message ''drone_id'' JNull) = Some k"
  shows "\<exists>s1 info.
     handle_drone_announcement now message addr self = Inr s1 \<and>
     map_of (discovered_drones s1) k = Some info \<and>
     address info = fst addr \<and>
     port info = (case map_of message ''port'' of None \<Rightarrow> JInt 14550 | Some p \<Rightarrow> p) \<and>
     (dict_get message ''type'' JNull = JStr ''drone_announce'' \<longrightarrow>
        listener_iteration (Datagram (Inr (JObj message)) addr) now env ts_cmd ts_resp self =
          (s1, [], None)) \<and>
     (\<forall>message' now' self'.
        py_truthy (dict_get message' ''drone_id'' JNull) \<and>
        py_key (dict_get message' ''drone_id'' JNull) = Some k \<longrightarrow>
        (\<exists>s2 info'.
           handle_drone_announcement now' message' addr self' = Inr s2 \<and>
           map_of (discovered_drones s2) k = Some info' \<and>
           address info' = address info))"
proof -
  let ?info = "new_drone_info now message addr (dict_get message ''drone_id'' JNull)"
  let ?s1 = "self\<lparr>discovered_drones := AList.update k ?info (discovered_drones self)\<rparr>"
  have a: "handle_drone_announcement now message addr self = Inr ?s1"
    using assms by (rule announce_stores)
  have m: "map_of (discovered_drones ?s1) k = Some ?info" by (simp add: update_conv')
  have ad: "address ?info = fst addr" by (simp add: new_drone_info_def)
  have po: "port ?info = (case map_of message ''port'' of None \<Rightarrow> JInt 14550 | Some p \<Rightarrow> p)"
    by (simp add: new_drone_info_def dict_get_def)
  have li: "dict_get message ''type'' JNull = JStr ''drone_announce'' \<longrightarrow>
        listener_iteration (Datagram (Inr (JObj message)) addr) now env ts_cmd ts_resp self =
          (?s1, [], None)"
    using a by (simp add: listener_iteration_def listener_try_def)
  have other: "\<exists>s2 info'.
           handle_drone_announcement now' message' addr self' = Inr s2 \<and>
           map_of (discovered_drones s2) k = Some info' \<and>
           address info' = address ?info"
    if "py_truthy (dict_get message' ''drone_id'' JNull) \<and>
        py_key (dict_get message' ''drone_id'' JNull) = Some k" for message' now' self'
  proof -
    let ?info' = "new_drone_info now' message' addr (dict_get message' ''drone_id'' JNull)"
    let ?s2 = "self'\<lparr>discovered_drones := AList.update k ?info' (discovered_drones self')\<rparr>"
    have "handle_drone_announcement now' message' addr self' = Inr ?s2"
      using that by (simp add: announce_stores)
    moreover have "map_of (discovered_drones ?s2) k = Some ?info'" by (simp add: update_conv')
    moreover have "address ?info' = address ?info" by (simp add: new_drone_info_def)
    ultimately show ?thesis by blast
  qed
  from a m ad po li other show ?thesis by blast
qed

theorem announce_address_from_socket_witness:
  "py_truthy (dict_get example_announce ''drone_id'' JNull) \<and>
   py_key (dict_get example_announce ''drone_id'' JNull) = Some (KStr ''drone-1'') \<and>
   (\<exists>s1 info.
      handle_drone_announcement 0 example_announce example_addr (DroneController 8888) = Inr s1 \<and>
      map_of (discovered_drones s1) (KStr ''drone-1'') = Some info \<and>
      address info = ''10.0.0.5'' \<and> port info = JInt 14550)"
proof -
  have t: "py_truthy (dict_get example_announce ''drone_id'' JNull)"
    by (simp add: example_announce_id)
  have k: "py_key (dict_get example_announce ''drone_id'' JNull) = Some (KStr ''drone-1'')"
    by (simp add: example_announce_id)
  have p: "map_of example_announce ''port'' = None" by (simp add: example_announce_def)
  from announce_address_from_socket [OF t k, of 0 example_addr "DroneController 8888"]
  obtain s1 info where
    "handle_drone_announcement 0 example_announce example_addr (DroneController 8888) = Inr s1"
    "map_of (discovered_drones s1) (KStr ''drone-1'') = Some info"
    "address info = fst example_addr"
    "port info = (case map_of example_announce ''port'' of None \<Rightarrow> JInt 14550 | Some p \<Rightarrow> p)"
    by blast
  then have "\<exists>s1 info.
      handle_drone_announcement 0 example_announce example_addr (DroneController 8888) = Inr s1 \<and>
      map_of (discovered_drones s1) (KStr ''drone-1'') = Some info \<and>
      address info = ''10.0.0.5'' \<and> port info = JInt 14550"
    using p by (auto simp: example_addr_def)
  with t k show ?thesis by blast
qed

section \<open>What an announce does to an existing record\<close>

text \<open>
  Claim C8 fails as stated: a field the announce does not supply does not keep its
  previous value. The record of \<^verbatim>\<open>drone-1\<close> holds a battery voltage of 12.4; after an
  announce for \<^verbatim>\<open>drone-1\<close> without that field the record holds 0.
\<close>

theorem announce_resets_fields_counterexample:
  "\<exists>old s1 info.
     map_of (discovered_drones example_controller) (KStr ''drone-1'') = Some old \<and>
     battery_voltage old = JFloat (6980579422424269 / 562949953421312) \<and>
     handle_drone_announcement 1000000
       [(''type'', JStr ''drone_announce''), (''drone_id'', JStr ''drone-1'')]
       example_addr example_controller = Inr s1 \<and>
     map_of (discovered_drones s1) (KStr ''drone-1'') = Some info \<and>
     battery_voltage info = JInt 0 \<and>
     battery_voltage info \<noteq> battery_voltage old"
  by (simp add: handle_drone_announcement_def dict_get_def example_controller_def Let_def
      new_drone_info_def example_announce_def)

text \<open>
  Claim C8, amended. For every registry state, holding a record for the identifier or
  not, ingesting an announce with a truthy, hashable \<^verbatim>\<open>drone_id\<close> replaces the whole
  record under that identifier: each supplied field is stored, each field that is not
  supplied is set to its default (the name to the identifier, the port to 14550, status,
  flight mode and firmware version to \<^verbatim>\<open>unknown\<close>, battery voltage and signal strength
  to 0, GPS fix and armed to false) whatever the previous record held, \<open>address\<close> is the
  sender's host, and \<open>last_seen\<close> is the time of the announce. Every other identifier
  keeps its record.
\<close>

theorem announce_replaces_record:
  assumes "py_truthy (dict_get message ''drone_id'' JNull)"
    and "py_key (dict_get message ''drone_id'' JNull) = Some k"
  shows "\<exists>s1 info.
     handle_drone_announcement now message addr self = Inr s1 \<and>
     map_of (discovered_drones s1) k = Some info \<and>
     (\<forall>k'. k' \<noteq> k \<longrightarrow> map_of (discovered_drones s1) k' = map_of (discovered_drones self) k') \<and>
     last_seen info = now \<and>
     address info = fst addr \<and>
     id' info = dict_get message ''drone_id'' JNull \<and>
     name info =
       (case map_of message ''name'' of None \<Rightarrow> id' info | Some v \<Rightarrow> v) \<and>
     port info =
       (case map_of message ''port'' of None \<Rightarrow> JInt 14550 | Some v \<Rightarrow> v) \<and>
     status info =
       (case map_of message ''pixhawk_status'' of None \<Rightarrow> JStr ''unknown'' | Some v \<Rightarrow> v) \<and>
     battery_voltage info =
       (case map_of message ''battery_voltage'' of None \<Rightarrow> JInt 0 | Some v \<Rightarrow> v) \<and>
     gps_fix info =
       (case map_of message ''gps_fix'' of None \<Rightarrow> JBool False | Some v \<Rightarrow> v) \<and>
     flight_mode info =
       (case map_of message ''flight_mode'' of None \<Rightarrow> JStr ''unknown'' | Some v \<Rightarrow> v) \<and>
     armed info =
       (case map_of message ''armed'' of None \<Rightarrow> JBool False | Some v \<Rightarrow> v) \<and>
     signal_strength info =
       (case map_of message ''signal_strength'' of None \<Rightarrow> JInt 0 | Some v \<Rightarrow> v) \<and>
     firmware_version info =
       (case map_of message ''firmware_version'' of None \<Rightarrow> JStr ''unknown'' | Some v \<Rightarrow> v)"
proof -
  let ?info = "new_drone_info now message addr (dict_get message ''drone_id'' JNull)"
  let ?s1 = "self\<lparr>discovered_drones := AList.update k ?info (discovered_drones self)\<rparr>"
  have a: "handle_drone_announcement now message addr self = Inr ?s1"
    using assms by (rule announce_stores)
  have m: "map_of (discovered_drones ?s1) k = Some ?info" by (simp add: update_conv')
  have o: "\<forall>k'. k' \<noteq> k \<longrightarrow>
      map_of (discovered_drones ?s1) k' = map_of (discovered_drones self) k'"
    by (simp add: update_conv')
  have f: "last_seen ?info = now \<and>
     address ?info = fst addr \<and>
     id' ?info = dict_get message ''drone_id'' JNull \<and>
     name ?info =
       (case map_of message ''name'' of None \<Rightarrow> id' ?info | Some v \<Rightarrow> v) \<and>
     port ?info =
       (case map_of message ''port'' of None \<Rightarrow> JInt 14550 | Some v \<Rightarrow> v) \<and>
     status ?info =
       (case map_of message ''pixhawk_status'' of None \<Rightarrow> JStr ''unknown'' | Some v \<Rightarrow> v) \<and>
     battery_voltage ?info =
       (case map_of message ''battery_voltage'' of None \<Rightarrow> JInt 0 | Some v \<Rightarrow> v) \<and>
     gps_fix ?info =
       (case map_of message ''gps_fix'' of None \<Rightarrow> JBool False | Some v \<Rightarrow> v) \<and>
     flight_mode ?info =
       (case map_of message ''flight_mode'' of None \<Rightarrow> JStr ''unknown'' | Some v \<Rightarrow> v) \<and>
     armed ?info =
       (case map_of message ''armed'' of None \<Rightarrow> JBool False | Some v \<Rightarrow> v) \<and>
     signal_strength ?info =
       (case map_of message ''signal_strength'' of None \<Rightarrow> JInt 0 | Some v \<Rightarrow> v) \<and>
     firmware_version ?info =
       (case map_of message ''firmware_version'' of None \<Rightarrow> JStr ''unknown'' | Some v \<Rightarrow> v)"
    by (simp add: new_drone_info_def dict_get_def split: option.splits)
  show ?thesis
    by (rule exI [of _ ?s1], rule exI [of _ ?info]) (use a m o f in blast)
qed

theorem announce_replaces_record_witness:
  "py_truthy (dict_get [(''type'', JStr ''drone_announce''), (''drone_id'', JStr ''drone-1''),
                        (''armed'', JBool True)] ''drone_id'' JNull) \<and>
   py_key (dict_get [(''type'', JStr ''drone_announce''), (''drone_id'', JStr ''drone-1''),
                     (''armed'', JBool True)] ''drone_id'' JNull) = Some (KStr ''drone-1'') \<and>
   (\<exists>s1 info.
      handle_drone_announcement 1000000
        [(''type'', JStr ''drone_announce''), (''drone_id'', JStr ''drone-1''),
         (''armed'', JBool True)] example_addr example_controller = Inr s1 \<and>
      map_of (discovered_drones s1) (KStr ''drone-1'') = Some info \<and>
      last_seen info = 1000000 \<and> armed info = JBool True \<and> battery_voltage info = JInt 0)"
proof -
  let ?m = "[(''type'', JStr ''drone_announce''), (''drone_id'', JStr ''drone-1''),
             (''armed'', JBool True)]"
  have t: "py_truthy (dict_get ?m ''drone_id'' JNull)" by (simp add: dict_get_def)
  have k: "py_key (dict_get ?m ''drone_id'' JNull) = Some (KStr ''drone-1'')"
    by (simp add: dict_get_def)
  from announce_replaces_record [OF t k, of 1000000 example_addr example_controller]
  obtain s1 info where
    "handle_drone_announcement 1000000 ?m example_addr example_controller = Inr s1"
    "map_of (discovered_drones s1) (KStr ''drone-1'') = Some info"
    "last_seen info = 1000000"
    "armed info = (case map_of ?m ''armed'' of None \<Rightarrow> JBool False | Some v \<Rightarrow> v)"
    "battery_voltage info =
       (case map_of ?m ''battery_voltage'' of None \<Rightarrow> JInt 0 | Some v \<Rightarrow> v)"
    by blast
  then have "\<exists>s1 info.
      handle_drone_announcement 1000000 ?m example_addr example_controller = Inr s1 \<and>
      map_of (discovered_drones s1) (KStr ''drone-1'') = Some info \<and>
      last_seen info = 1000000 \<and> armed info = JBool True \<and> battery_voltage info = JInt 0"
    by auto
  with t k show ?thesis by blast
qed

section \<open>Starting the server\<close>

text \<open>
  Claim C9 fails as stated when the bind succeeds but the listener thread cannot be
  started: \<^verbatim>\<open>start_server\<close> then returns \<^verbatim>\<open>False\<close>, although the port is bound
  and the running flag has been set.
\<close>

theorem thread_start_counterexample:
  "bind_fails \<lparr>socket_fails = None, setsockopt_fails = None, bind_fails = None,
        thread_start_fails = Some (Exn OtherException ''thread start failed'')\<rparr> = None \<and>
   snd (start_server
      \<lparr>socket_fails = None, setsockopt_fails = None, bind_fails = None,
        thread_start_fails = Some (Exn OtherException ''thread start failed'')\<rparr>
      (DroneController 8888)) = Inr False \<and>
   running (fst (start_server
      \<lparr>socket_fails = None, setsockopt_fails = None, bind_fails = None,
        thread_start_fails = Some (Exn OtherException ''thread start failed'')\<rparr>
      (DroneController 8888))) = True \<and>
   server_socket (fst (start_server
      \<lparr>socket_fails = None, setsockopt_fails = None, bind_fails = None,
        thread_start_fails = Some (Exn OtherException ''thread start failed'')\<rparr>
      (DroneController 8888))) = Some Bound"
  by (simp add: start_server_def start_try_def DroneController_def Let_def)

text \<open>
  Claim C9, amended. \<^verbatim>\<open>start_server\<close> always returns a boolean and never raises. It
  returns \<^verbatim>\<open>False\<close> when creating the socket, setting its option or binding the port
  fails, and then the running flag and the registry are as before, so the hosting
  application continues without fleet features. It returns \<^verbatim>\<open>True\<close>, with the socket
  bound and the running flag set, when the bind succeeds and the listener thread starts.
\<close>

theorem start_server_returns_bool:
  "(\<exists>b. snd (start_server os self) = Inr b) \<and>
   (socket_fails os \<noteq> None \<or> setsockopt_fails os \<noteq> None \<or> bind_fails os \<noteq> None \<longrightarrow>
      snd (start_server os self) = Inr False \<and>
      running (fst (start_server os self)) = running self \<and>
      discovered_drones (fst (start_server os self)) = discovered_drones self \<and>
      discovery_thread (fst (start_server os self)) = discovery_thread self) \<and>
   (socket_fails os = None \<and> setsockopt_fails os = None \<and> bind_fails os = None \<and>
    thread_start_fails os = None \<longrightarrow>
      start_server os self =
        (self\<lparr>server_socket := Some Bound, running := True,
               discovery_thread := Some Started\<rparr>, Inr True))"
proof -
  have 1: "\<exists>b. snd (start_server os self) = Inr b"
    by (auto simp: start_server_def start_try_def Let_def split: option.splits)
  have 2: "snd (start_server os self) = Inr False \<and>
      running (fst (start_server os self)) = running self \<and>
      discovered_drones (fst (start_server os self)) = discovered_drones self \<and>
      discovery_thread (fst (start_server os self)) = discovery_thread self"
    if "socket_fails os \<noteq> None \<or> setsockopt_fails os \<noteq> None \<or> bind_fails os \<noteq> None"
    using that by (auto simp: start_server_def start_try_def Let_def split: option.splits)
  have 3: "start_server os self =
        (self\<lparr>server_socket := Some Bound, running := True,
               discovery_thread := Some Started\<rparr>, Inr True)"
    if "socket_fails os = None \<and> setsockopt_fails os = None \<and> bind_fails os = None \<and>
        thread_start_fails os = None"
    using that by (simp add: start_server_def start_try_def Let_def)
  from 1 2 3 show ?thesis by blast
qed

theorem start_server_returns_bool_witness:
  "bind_fails \<lparr>socket_fails = None, setsockopt_fails = None,
     bind_fails = Some (Exn OtherException ''Address already in use''),
     thread_start_fails = None\<rparr> \<noteq> None \<and>
   snd (start_server
     \<lparr>socket_fails = None, setsockopt_fails = None,
       bind_fails = Some (Exn OtherException ''Address already in use''),
       thread_start_fails = None\<rparr> (DroneController 8888)) = Inr False \<and>
   running (fst (start_server
     \<lparr>socket_fails = None, setsockopt_fails = None,
       bind_fails = Some (Exn OtherException ''Address already in use''),
       thread_start_fails = None\<rparr> (DroneController 8888))) = False \<and>
   start_server
     \<lparr>socket_fails = None, setsockopt_fails = None, bind_fails = None,
       thread_start_fails = None\<rparr> (DroneController 8888) =
     (\<lparr>discovery_port = 8888, discovered_drones = [], server_socket = Some Bound,
       running = True, discovery_thread = Some Started\<rparr>, Inr True)"
proof -
  let ?busy = "\<lparr>socket_fails = None, setsockopt_fails = None,
       bind_fails = Some (Exn OtherException ''Address already in use''),
       thread_start_fails = None\<rparr>"
  let ?ok = "\<lparr>socket_fails = None, setsockopt_fails = None, bind_fails = None,
       thread_start_fails = None\<rparr>"
  have b: "bind_fails ?busy \<noteq> None" by simp
  have o: "socket_fails ?ok = None \<and> setsockopt_fails ?ok = None \<and> bind_fails ?ok = None \<and>
    thread_start_fails ?ok = None" by simp
  from start_server_returns_bool [of ?busy "DroneController 8888"] b
  have 1: "snd (start_server ?busy (DroneController 8888)) = Inr False \<and>
      running (fst (start_server ?busy (DroneController 8888))) = running (DroneController 8888)"
    by blast
  from start_server_returns_bool [of ?ok "DroneController 8888"] o
  have 2: "start_server ?ok (DroneController 8888) =
        ((DroneController 8888)\<lparr>server_socket := Some Bound, running := True,
               discovery_thread := Some Started\<rparr>, Inr True)"
    by blast
  from b 1 2 show ?thesis by (simp add: DroneController_def)
qed

end
